theory Spec2Isabelle
  imports Complex_Main "HOL-Library.Word"
begin

section \<open>JavaScript values used by the REST client\<close>

text \<open>
  A JavaScript string is a sequence of UTF-16 code units. String literals of the source
  are written \<open>js ''...''\<close>. A value that may be \<open>null\<close> or \<open>undefined\<close> is an
  \<open>option\<close>; both are falsy and nothing here tells them apart, so \<open>None\<close> stands for
  either. The empty string is the only falsy string.
\<close>

type_synonym jsstring = "16 word list"

definition js :: "string \<Rightarrow> jsstring" where
  "js s = map (\<lambda>c. word_of_nat (of_char c)) s"

fun truthy :: "jsstring option \<Rightarrow> bool" where
  "truthy None = False"
| "truthy (Some s) = (s \<noteq> [])"

section \<open>Request lifecycle store (requestStore.ts)\<close>

text \<open>
  The static fields of \<open>RequestStore\<close>. \<open>cancelledRequestIds\<close> can receive
  \<open>undefined\<close> (from \<open>cancel()\<close> before any request was added), so its elements are
  optional strings. \<open>currentRequestId\<close> is \<open>undefined\<close> until the first \<open>add\<close>.
\<close>

record 'r RequestStore =
  cache :: "jsstring \<rightharpoonup> 'r"
  cancelledRequestIds :: "jsstring option set"
  completedRequestIds :: "jsstring option set"
  currentRequestId :: "jsstring option"

definition emptyStore :: "'r RequestStore" where
  "emptyStore = \<lparr>cache = Map.empty, cancelledRequestIds = {}, completedRequestIds = {},
     currentRequestId = None\<rparr>"

text \<open>\<open>add(requestId, request)\<close>: stores only when both arguments are truthy.\<close>

fun add :: "jsstring option \<Rightarrow> 'r option \<Rightarrow> 'r RequestStore \<Rightarrow> 'r RequestStore" where
  "add (Some requestId) (Some request) s =
     (if requestId \<noteq> []
      then s\<lparr>cache := (cache s)(requestId \<mapsto> request), currentRequestId := Some requestId\<rparr>
      else s)"
| "add _ _ s = s"

text \<open>\<open>getLatest()\<close>: \<open>None\<close> is the \<open>null\<close> of the else branch.\<close>

definition getLatest :: "'r RequestStore \<Rightarrow> 'r option" where
  "getLatest s =
     (case currentRequestId s of
        None \<Rightarrow> None
      | Some c \<Rightarrow> (if c \<in> dom (cache s) then cache s c else None))"

text \<open>\<open>cancel(requestId = null)\<close>: a falsy argument selects the current identifier.\<close>

definition cancel :: "jsstring option \<Rightarrow> 'r RequestStore \<Rightarrow> 'r RequestStore" where
  "cancel requestId s =
     (let rid = (if truthy requestId then requestId else currentRequestId s)
      in if rid \<notin> cancelledRequestIds s
         then s\<lparr>cancelledRequestIds := insert rid (cancelledRequestIds s)\<rparr>
         else s)"

text \<open>
  \<open>isCancelled(requestId)\<close> is \<open>requestId && has(requestId)\<close>; for a falsy argument
  JavaScript yields that falsy argument, which is read here as \<open>False\<close>.
\<close>

definition isCancelled :: "jsstring option \<Rightarrow> 'r RequestStore \<Rightarrow> bool" where
  "isCancelled requestId s = (truthy requestId \<and> requestId \<in> cancelledRequestIds s)"

definition complete :: "jsstring option \<Rightarrow> 'r RequestStore \<Rightarrow> 'r RequestStore" where
  "complete requestId s =
     (if truthy requestId
      then s\<lparr>completedRequestIds := insert requestId (completedRequestIds s)\<rparr>
      else s)"

definition isCompleted :: "jsstring option \<Rightarrow> 'r RequestStore \<Rightarrow> bool" where
  "isCompleted requestId s =
     ((if truthy requestId then requestId else currentRequestId s) \<in> completedRequestIds s)"

section \<open>Strings and objects\<close>

text \<open>
  \<open>String.prototype.toLowerCase\<close> on the ASCII letters. The Unicode case mapping of
  other code units is not modelled: they are left as they are. Header names and host
  names are ASCII.
\<close>

definition lowerUnit :: "16 word \<Rightarrow> 16 word" where
  "lowerUnit c = (if 0x41 \<le> c \<and> c \<le> 0x5A then c + 0x20 else c)"

definition toLowerCase :: "jsstring \<Rightarrow> jsstring" where
  "toLowerCase s = map lowerUnit s"

text \<open>
  The white space of the regular expression class \<open>\s\<close>: the WhiteSpace and
  LineTerminator code points of ECMAScript.
\<close>

definition isWhiteSpace :: "16 word \<Rightarrow> bool" where
  "isWhiteSpace c =
     (c \<in> {0x09, 0x0A, 0x0B, 0x0C, 0x0D, 0x20, 0xA0, 0x1680, 0x2028, 0x2029, 0x202F,
             0x205F, 0x3000, 0xFEFF}
      \<or> (0x2000 \<le> c \<and> c \<le> 0x200A))"

text \<open>
  \<open>s.split(/\s+/)\<close>: the pieces between maximal runs of white space. White space at
  the start or at the end of \<open>s\<close> gives an empty first or last piece, and the empty
  string gives one empty piece.
\<close>

function splitWhiteSpace :: "jsstring \<Rightarrow> jsstring list" where
  "splitWhiteSpace s =
     (case dropWhile (\<lambda>c. \<not> isWhiteSpace c) s of
        [] \<Rightarrow> [s]
      | r # rs \<Rightarrow> takeWhile (\<lambda>c. \<not> isWhiteSpace c) s
                 # splitWhiteSpace (dropWhile isWhiteSpace (r # rs)))"
  by pat_completeness auto
termination
proof (relation "measure length")
  fix s :: jsstring and r rs
  assume d: "dropWhile (\<lambda>c. \<not> isWhiteSpace c) s = r # rs"
  have "isWhiteSpace r"
    using hd_dropWhile [of "\<lambda>c. \<not> isWhiteSpace c" s] d by simp
  then have "length (dropWhile isWhiteSpace (r # rs)) \<le> length rs"
    by (simp add: length_dropWhile_le)
  also have "length rs < length (dropWhile (\<lambda>c. \<not> isWhiteSpace c) s)"
    using d by simp
  also have "\<dots> \<le> length s"
    by (rule length_dropWhile_le)
  finally show "(dropWhile isWhiteSpace (r # rs), s) \<in> measure length"
    by simp
qed simp

text \<open>\<open>s.split(sep)\<close> for a separator of one code unit.\<close>

fun splitUnit :: "16 word \<Rightarrow> jsstring \<Rightarrow> jsstring list" where
  "splitUnit sep [] = [[]]"
| "splitUnit sep (c # cs) =
     (if c = sep then [] # splitUnit sep cs
      else (case splitUnit sep cs of
              [] \<Rightarrow> [[c]]
            | t # ts \<Rightarrow> (c # t) # ts))"

text \<open>\<open>parts.join(sep)\<close>.\<close>

fun join :: "jsstring \<Rightarrow> jsstring list \<Rightarrow> jsstring" where
  "join sep [] = []"
| "join sep [p] = p"
| "join sep (p # q # ps) = p @ sep @ join sep (q # ps)"

text \<open>\<open>s.includes(p)\<close> and \<open>s.startsWith(p)\<close>.\<close>

definition startsWith :: "jsstring \<Rightarrow> jsstring \<Rightarrow> bool" where
  "startsWith s p = (take (length p) s = p)"

fun stringIncludes :: "jsstring \<Rightarrow> jsstring \<Rightarrow> bool" where
  "stringIncludes [] p = (p = [])"
| "stringIncludes (c # cs) p = (startsWith (c # cs) p \<or> stringIncludes cs p)"

text \<open>
  An ordinary object used as a dictionary from strings: its own enumerable properties
  in the order of \<open>for ... in\<close>, which is the order in which the properties were
  created (property names that are array indices, which JavaScript enumerates first,
  are not told apart). \<open>obj_get\<close> reads an own property, with \<open>None\<close> when the object
  has no own property of that name, and \<open>obj_set\<close> writes one: an existing property
  keeps its place.
\<close>

type_synonym 'v jsobject = "(jsstring \<times> 'v) list"

definition obj_get :: "'v jsobject \<Rightarrow> jsstring \<Rightarrow> 'v option" where
  "obj_get obj k = map_of obj k"

fun obj_set :: "jsstring \<Rightarrow> 'v \<Rightarrow> 'v jsobject \<Rightarrow> 'v jsobject" where
  "obj_set k v [] = [(k, v)]"
| "obj_set k v ((k', v') # kvs) =
     (if k' = k then (k, v) # kvs else (k', v') # obj_set k v kvs)"

text \<open>
  What an ordinary object inherits from \<open>Object.prototype\<close>. \<open>objectPrototypeKey k\<close> is the
  member named \<open>k\<close> as the property name that it becomes when it is used as one: for
  the methods the text of a native function in Node, for \<open>constructor\<close> that of the
  function \<open>Object\<close>, and for the accessor \<open>__proto__\<close>, whose value is
  \<open>Object.prototype\<close> itself, the text \<open>[object Object]\<close>. Every member is truthy.
\<close>

definition objectPrototypeMethods :: "jsstring list" where
  "objectPrototypeMethods =
     map js [''__defineGetter__'', ''__defineSetter__'', ''hasOwnProperty'',
             ''__lookupGetter__'', ''__lookupSetter__'', ''isPrototypeOf'',
             ''propertyIsEnumerable'', ''toString'', ''valueOf'', ''toLocaleString'']"

definition objectPrototypeKey :: "jsstring \<Rightarrow> jsstring option" where
  "objectPrototypeKey k =
     (if k = js ''__proto__'' then Some (js ''[object Object]'')
      else if k = js ''constructor'' then Some (js ''function Object() { [native code] }'')
      else if k \<in> set objectPrototypeMethods
      then Some (js ''function '' @ k @ js ''() { [native code] }'')
      else None)"

text \<open>
  \<open>o[k] = v\<close> for a string \<open>v\<close>: an own property is written, a new one is created at
  the end, but for the name \<open>__proto__\<close>, when it is not an own property, the
  assignment goes to the inherited setter, which ignores a string.
\<close>

definition obj_assign :: "jsstring \<Rightarrow> jsstring \<Rightarrow> jsstring jsobject \<Rightarrow> jsstring jsobject" where
  "obj_assign k v obj =
     (if k = js ''__proto__'' \<and> obj_get obj k = None then obj else obj_set k v obj)"

text \<open>
  Modelled from the spec: \<open>getHeader\<close> and \<open>hasHeader\<close> of \<open>./misc\<close>, a module that the
  client imports and that is not among the sources. The specification asks for a
  case-insensitive lookup of a header name (section 3, invariants; section 4.1, step 8).
  With several names that differ in case only, \<open>getHeader\<close> gives the first one.
\<close>

definition getHeader :: "jsstring jsobject \<Rightarrow> jsstring \<Rightarrow> jsstring option" where
  "getHeader headers name =
     map_option snd (find (\<lambda>(k, v). toLowerCase k = toLowerCase name) headers)"

definition hasHeader :: "jsstring jsobject \<Rightarrow> jsstring \<Rightarrow> bool" where
  "hasHeader headers name = list_ex (\<lambda>(k, v). toLowerCase k = toLowerCase name) headers"

section \<open>Request options (HttpClient.prepareOptions)\<close>

type_synonym bytes = "8 word list"

text \<open>The fields of the result of Node's \<open>url.parse\<close> that the client reads.\<close>

record UrlParts =
  protocol :: "jsstring option"
  host :: "jsstring option"
  hostname :: "jsstring option"
  port :: "jsstring option"

record HostCertificate =
  cert :: "bytes option"
  key :: "bytes option"
  pfx :: "bytes option"
  passphrase :: "jsstring option"

text \<open>
  A readable stream, as \<open>convertStreamToBuffer\<close> sees it after \<open>resume()\<close>: the
  \<open>data\<close> events in order, then \<open>end\<close> (\<open>failure = None\<close>) or \<open>error\<close>.
\<close>

datatype streamChunk = StringChunk jsstring | BufferChunk bytes

record 'e Readable =
  chunks :: "streamChunk list"
  failure :: "'e option"

datatype 'e requestBody = StringBody jsstring | StreamBody "'e Readable"

text \<open>
  The request. The field \<open>method\<close> of the source is \<open>requestMethod\<close> here, in the
  request and in the options.
\<close>

record 'e HttpRequest =
  requestMethod :: jsstring
  url :: jsstring
  headers :: "jsstring jsobject option"
  body :: "'e requestBody option"
  rawBody :: "jsstring option"
  requestVariableCacheKey :: "jsstring option"

record RestClientSettings =
  followRedirect :: bool
  rememberCookiesForSubsequentRequests :: bool
  timeoutInMilliseconds :: int
  proxy :: "jsstring option"
  excludeHostsForProxy :: "jsstring list option"
  proxyStrictSSL :: bool
  defaultHeaders :: "jsstring jsobject"
  decodeEscapedUnicodeCharacters :: bool

text \<open>
  The options handed to the transport. \<open>hooks\<close> holds the arguments of the
  \<open>digest(user, pass)\<close> hooks of \<open>afterResponse\<close>; \<open>cookieJar\<close> tells whether a cookie
  jar is attached; the agent keeps the port as the text that \<open>Number\<close> is applied to.
  The constant fields (\<open>encoding: null\<close>, \<open>rejectUnauthorized: false\<close>,
  \<open>throwHttpErrors: false\<close>) are left out.
\<close>

datatype agentConstructor = HttpProxyAgent | HttpsProxyAgent

record ProxyAgent =
  agentConstructor :: agentConstructor
  agentHost :: "jsstring option"
  agentPort :: "jsstring option"
  agentRejectUnauthorized :: bool

datatype bodyData = StringData jsstring | BufferData bytes

record GotBodyOptions =
  headers :: "jsstring jsobject"
  requestMethod :: jsstring
  body :: "bodyData option"
  followRedirect :: bool
  cookieJar :: bool
  timeout :: "int option"
  hooks :: "(jsstring \<times> jsstring) list option"
  cert :: "bytes option"
  key :: "bytes option"
  pfx :: "bytes option"
  passphrase :: "jsstring option"
  agent :: "ProxyAgent option"
  decompress :: "bool option"

text \<open>
  What the client calls outside its own sources: Node's \<open>url.parse\<close> and
  \<open>Buffer.from\<close>, \<open>base64\<close> of \<open>./misc\<close>, and \<open>getRequestCertificate\<close>, which reads
  the certificate files of a host from the file system.
\<close>

record Environment =
  url_parse :: "jsstring \<Rightarrow> UrlParts"
  bufferFrom :: "jsstring \<Rightarrow> bytes"
  base64 :: "jsstring \<Rightarrow> jsstring"
  getRequestCertificate :: "jsstring \<Rightarrow> HostCertificate option"

definition convertStreamToBuffer :: "Environment \<Rightarrow> 'e Readable \<Rightarrow> 'e + bytes" where
  "convertStreamToBuffer env stream =
     (case failure stream of
        Some error \<Rightarrow> Inl error
      | None \<Rightarrow>
          Inr (concat (map (\<lambda>buffer. case buffer of
                                StringChunk str \<Rightarrow> bufferFrom env str
                              | BufferChunk b \<Rightarrow> b)
                 (chunks stream))))"

text \<open>The request body of the options: a falsy body (none, or the empty string) gives none.\<close>

definition prepareBody :: "Environment \<Rightarrow> 'e requestBody option \<Rightarrow> 'e + bodyData option" where
  "prepareBody env originalRequestBody =
     (case originalRequestBody of
        None \<Rightarrow> Inr None
      | Some (StringBody str) \<Rightarrow> Inr (if str = [] then None else Some (StringData str))
      | Some (StreamBody stream) \<Rightarrow>
          (case convertStreamToBuffer env stream of
             Inl error \<Rightarrow> Inl error
           | Inr buffer \<Rightarrow> Inr (Some (BufferData buffer))))"

text \<open>
  The options as first assembled, with the time-out and with an empty object for
  missing headers. The options and the request share the headers object, so every
  later change of the headers is a change of the request's headers too.
\<close>

definition baseOptions ::
  "RestClientSettings \<Rightarrow> 'e HttpRequest \<Rightarrow> bodyData option \<Rightarrow> GotBodyOptions" where
  "baseOptions settings httpRequest requestBody =
     \<lparr>GotBodyOptions.headers =
        (case HttpRequest.headers httpRequest of None \<Rightarrow> [] | Some h \<Rightarrow> h),
      requestMethod = HttpRequest.requestMethod httpRequest,
      body = requestBody,
      followRedirect = RestClientSettings.followRedirect settings,
      cookieJar = rememberCookiesForSubsequentRequests settings,
      timeout =
        (if timeoutInMilliseconds settings > 0 then Some (timeoutInMilliseconds settings)
         else None),
      hooks = None, cert = None, key = None, pfx = None, passphrase = None,
      agent = None, decompress = None\<rparr>"

text \<open>The authorization step: \<open>const [scheme, user, ...args] = authorization.split(/\s+/)\<close>.\<close>

definition setAuthorization :: "Environment \<Rightarrow> GotBodyOptions \<Rightarrow> GotBodyOptions" where
  "setAuthorization env options =
     (case getHeader (GotBodyOptions.headers options) (js ''Authorization'') of
        None \<Rightarrow> options
      | Some authorization \<Rightarrow>
          if authorization = [] then options
          else
            (case splitWhiteSpace authorization of
               scheme # user # args \<Rightarrow>
                 if length args > 0 then
                   (let pass = join (js '' '') args in
                    if scheme = js ''Basic'' then
                      options\<lparr>GotBodyOptions.headers :=
                        obj_assign (js ''Authorization'')
                          (js ''Basic '' @ base64 env (user @ js '':'' @ pass))
                          (GotBodyOptions.headers options)\<rparr>
                    else if scheme = js ''Digest'' then
                      options\<lparr>hooks := Some [(user, pass)]\<rparr>
                    else options)
                 else options
             | _ \<Rightarrow> options))"

definition setCertificate ::
  "Environment \<Rightarrow> 'e HttpRequest \<Rightarrow> GotBodyOptions \<Rightarrow> GotBodyOptions" where
  "setCertificate env httpRequest options =
     (case getRequestCertificate env (url httpRequest) of
        None \<Rightarrow> options
      | Some certificate \<Rightarrow>
          options\<lparr>cert := HostCertificate.cert certificate,
                  key := HostCertificate.key certificate,
                  pfx := HostCertificate.pfx certificate,
                  passphrase := HostCertificate.passphrase certificate\<rparr>)"

text \<open>
  \<open>ignoreProxy\<close>: the loop over the exclusion entries, lower-cased and without
  duplicates (\<open>Array.from(new Set(...))\<close> keeps the first of equal entries). The
  parameter \<open>parse\<close> is \<open>url.parse\<close>; \<open>urlPort\<close> is the variable \<open>port\<close> of the source and
  \<open>excludeHosts\<close> its parameter \<open>excludeHostsForProxy\<close>.
\<close>

fun ignoreProxyLoop :: "jsstring option \<Rightarrow> jsstring option \<Rightarrow> jsstring list \<Rightarrow> bool" where
  "ignoreProxyLoop hostName urlPort [] = False"
| "ignoreProxyLoop hostName urlPort (eh # rest) =
     (let urlParts = splitUnit 0x3A eh in
      if \<not> truthy urlPort then
        (if length urlParts = 1 \<and> Some (urlParts ! 0) = hostName then True
         else ignoreProxyLoop hostName urlPort rest)
      else
        (let ph = (if 0 < length urlParts then Some (urlParts ! 0) else None);
             pp = (if 1 < length urlParts then Some (urlParts ! 1) else None)
         in if ph = hostName \<and> (\<not> truthy pp \<or> pp = urlPort) then True
            else ignoreProxyLoop hostName urlPort rest))"

definition ignoreProxy ::
  "(jsstring \<Rightarrow> UrlParts) \<Rightarrow> jsstring \<Rightarrow> jsstring list option \<Rightarrow> bool" where
  "ignoreProxy parse requestUrl excludeHosts =
     (case excludeHosts of
        None \<Rightarrow> False
      | Some excluded \<Rightarrow>
          if length excluded = 0 then False
          else
            (let resolvedUrl = parse requestUrl;
                 hostName = map_option toLowerCase (hostname resolvedUrl);
                 urlPort = port resolvedUrl;
                 excludeHostsProxyList = rev (remdups (rev (map toLowerCase excluded)))
             in ignoreProxyLoop hostName urlPort excludeHostsProxyList))"

text \<open>
  The exclusion rule in the words of the specification (section 4.4), for comparison
  with the loop. An entry is compared lower-cased. A bare host name entry, one without
  a colon, matches when it equals the host name of the URL without regard to letter
  case; when the URL has an explicit port, an entry \<open>hostname:port\<close> matches as well
  when its host name equals that of the URL and its port is the port of the URL.
\<close>

definition exclusionEntryMatches ::
  "jsstring option \<Rightarrow> jsstring option \<Rightarrow> jsstring \<Rightarrow> bool" where
  "exclusionEntryMatches urlHostname urlPort entry =
     (case urlHostname of
        None \<Rightarrow> False
      | Some name \<Rightarrow>
          (0x3A \<notin> set entry \<and> toLowerCase entry = toLowerCase name)
          \<or> (case urlPort of
                None \<Rightarrow> False
              | Some p \<Rightarrow> p \<noteq> [] \<and> toLowerCase entry = toLowerCase name @ js '':'' @ p))"

text \<open>
  An exclusion entry of one of the two forms: at most one colon, and no colon at the
  end.
\<close>

definition wellFormedEntry :: "jsstring \<Rightarrow> bool" where
  "wellFormedEntry entry =
     (length (filter (\<lambda>c. c = 0x3A) entry) \<le> 1 \<and> (entry = [] \<or> last entry \<noteq> 0x3A))"


definition setProxy ::
  "Environment \<Rightarrow> RestClientSettings \<Rightarrow> 'e HttpRequest \<Rightarrow> GotBodyOptions \<Rightarrow> GotBodyOptions" where
  "setProxy env settings httpRequest options =
     (if truthy (proxy settings)
         \<and> \<not> ignoreProxy (url_parse env) (url httpRequest) (excludeHostsForProxy settings)
      then
        (let proxyEndpoint = url_parse env (the (proxy settings)) in
         if protocol proxyEndpoint = Some (js ''http:'')
            \<or> protocol proxyEndpoint = Some (js ''https:'')
         then
           options\<lparr>agent := Some
             \<lparr>agentConstructor =
                (if startsWith (url httpRequest) (js ''http:'') then HttpProxyAgent
                 else HttpsProxyAgent),
              agentHost = hostname proxyEndpoint,
              agentPort = port proxyEndpoint,
              agentRejectUnauthorized = proxyStrictSSL settings\<rparr>\<rparr>
         else options)
      else options)"

text \<open>The loop that adds the configured default headers, one round for one header.\<close>

definition addDefaultHeader ::
  "jsstring \<Rightarrow> jsstring jsobject \<Rightarrow> jsstring \<times> jsstring \<Rightarrow> jsstring jsobject" where
  "addDefaultHeader requestUrl hs d =
     (case d of (header, v) \<Rightarrow>
        if \<not> hasHeader hs header
           \<and> (toLowerCase header \<noteq> js ''host'' \<or> take 1 requestUrl = js ''/'')
        then (if v \<noteq> [] then obj_assign header v hs else hs)
        else hs)"

definition addDefaultHeaders ::
  "RestClientSettings \<Rightarrow> 'e HttpRequest \<Rightarrow> GotBodyOptions \<Rightarrow> GotBodyOptions" where
  "addDefaultHeaders settings httpRequest options =
     options\<lparr>GotBodyOptions.headers :=
       foldl (addDefaultHeader (url httpRequest)) (GotBodyOptions.headers options)
         (defaultHeaders settings)\<rparr>"

definition setDecompress :: "GotBodyOptions \<Rightarrow> GotBodyOptions" where
  "setDecompress options =
     (case getHeader (GotBodyOptions.headers options) (js ''Accept-Encoding'') of
        None \<Rightarrow> options
      | Some acceptEncoding \<Rightarrow>
          if acceptEncoding \<noteq> [] \<and> stringIncludes acceptEncoding (js ''gzip'')
          then options\<lparr>decompress := Some True\<rparr>
          else options)"

text \<open>
  \<open>prepareOptions\<close>: the steps in the order of the source. It fails only when the
  stream of the request body fails.
\<close>

definition prepareOptions ::
  "Environment \<Rightarrow> RestClientSettings \<Rightarrow> 'e HttpRequest \<Rightarrow> 'e + GotBodyOptions" where
  "prepareOptions env settings httpRequest =
     (case prepareBody env (HttpRequest.body httpRequest) of
        Inl error \<Rightarrow> Inl error
      | Inr requestBody \<Rightarrow>
          Inr (setDecompress
                (addDefaultHeaders settings httpRequest
                  (setProxy env settings httpRequest
                    (setCertificate env httpRequest
                      (setAuthorization env
                        (baseOptions settings httpRequest requestBody)))))))"

section \<open>Sending and the response (HttpClient.send)\<close>

text \<open>
  What the transport delivers for one exchange: the response with its lower-cased
  \<open>headers\<close> and its flat \<open>rawHeaders\<close> list (name, value, name, value, ...), the body
  buffer, the chunks of the \<open>data\<close> events, the timing phases and the headers of the
  request as the transport sent them.
\<close>

record 't GotResponse =
  statusCode :: nat
  statusMessage :: jsstring
  httpVersion :: jsstring
  headers :: "jsstring jsobject"
  rawHeaders :: "jsstring list option"
  body :: bytes
  dataChunks :: "bytes list"
  phases :: 't
  gotOptionsHeaders :: "jsstring jsobject option"

record ('e, 't) HttpResponse =
  statusCode :: nat
  statusMessage :: jsstring
  httpVersion :: jsstring
  headers :: "jsstring jsobject"
  body :: "jsstring option"
  bodySizeInBytes :: nat
  headersSizeInBytes :: rat
  bodyBuffer :: bytes
  timingPhases :: 't
  request :: "'e HttpRequest"

text \<open>
  The libraries behind \<open>send\<close>: \<open>encodeurl\<close>, the transport \<open>got\<close> (which may reject),
  the charset parameter that \<open>MimeUtility.parse\<close> reads from a content type, and
  \<open>iconv.decode\<close> (which may throw).
\<close>

record ('e, 't) Transport =
  encodeUrl :: "jsstring \<Rightarrow> jsstring"
  got :: "jsstring \<Rightarrow> GotBodyOptions \<Rightarrow> 'e + 't GotResponse"
  mimeCharset :: "jsstring \<Rightarrow> jsstring option"
  iconv_decode :: "bytes \<Rightarrow> jsstring \<Rightarrow> 'e + jsstring"

datatype 'e thrown = TypeError | Thrown 'e

text \<open>
  The byte counts. JavaScript numbers are exact on the integers and halves that occur
  here, so the header count is a rational number.
\<close>

definition onResponse :: "jsstring list option \<Rightarrow> rat \<Rightarrow> rat" where
  "onResponse resRawHeaders headersSize =
     (case resRawHeaders of
        None \<Rightarrow> headersSize
      | Some raw \<Rightarrow>
          headersSize + of_nat (foldl (\<lambda>a b. a + b) 0 (map length raw))
            + of_nat (length raw) / 2)"

definition onData :: "nat \<Rightarrow> bytes \<Rightarrow> nat" where
  "onData bodySize chunk = bodySize + length chunk"

text \<open>The charset of the body: that of the content type, or \<open>utf8\<close>.\<close>

definition detectEncoding :: "(jsstring \<Rightarrow> jsstring option) \<Rightarrow> jsstring option \<Rightarrow> jsstring" where
  "detectEncoding charsetOf contentType =
     (let encoding = (if truthy contentType then charsetOf (the contentType) else None)
      in if \<not> truthy encoding then js ''utf8'' else the encoding)"

text \<open>
  The \<open>try\<close>/\<open>catch\<close> around \<open>iconv.decode\<close>. The result \<open>None\<close> is a body string left
  \<open>undefined\<close>; an error of the second call, inside the \<open>catch\<close> block, is thrown on.
\<close>

definition decodeBody ::
  "(bytes \<Rightarrow> jsstring \<Rightarrow> 'e + jsstring) \<Rightarrow> bytes \<Rightarrow> jsstring \<Rightarrow> 'e + jsstring option" where
  "decodeBody decode buffer encoding =
     (case decode buffer encoding of
        Inr bodyString \<Rightarrow> Inr (Some bodyString)
      | Inl _ \<Rightarrow>
          if encoding \<noteq> js ''utf8'' then
            (case decode buffer (js ''utf8'') of
               Inr bodyString \<Rightarrow> Inr (Some bodyString)
             | Inl error \<Rightarrow> Inl error)
          else Inr None)"

text \<open>
  \<open>body.replace(/\\u([\d\w]{4})/gi, (_, g) => String.fromCharCode(parseInt(g, 16)))\<close>.
  The class \<open>[\d\w]\<close> is the word characters; with the flag \<open>i\<close> the letter after the
  backslash may be \<open>u\<close> or \<open>U\<close>. \<open>parseInt16\<close> is \<open>parseInt(g, 16)\<close> on a string without
  white space or sign: an optional \<open>0x\<close>, then the longest run of hexadecimal digits,
  and \<open>None\<close> (\<open>NaN\<close>) when that run is empty. \<open>String.fromCharCode\<close> maps \<open>NaN\<close> to the
  code unit 0.
\<close>

definition isWordUnit :: "16 word \<Rightarrow> bool" where
  "isWordUnit c =
     ((0x30 \<le> c \<and> c \<le> 0x39) \<or> (0x41 \<le> c \<and> c \<le> 0x5A) \<or> c = 0x5F
      \<or> (0x61 \<le> c \<and> c \<le> 0x7A))"

definition hexDigit :: "16 word \<Rightarrow> nat option" where
  "hexDigit c =
     (if 0x30 \<le> c \<and> c \<le> 0x39 then Some (unat c - 0x30)
      else if 0x41 \<le> c \<and> c \<le> 0x46 then Some (unat c - 0x37)
      else if 0x61 \<le> c \<and> c \<le> 0x66 then Some (unat c - 0x57)
      else None)"

fun parseHexDigits :: "nat option \<Rightarrow> jsstring \<Rightarrow> nat option" where
  "parseHexDigits acc [] = acc"
| "parseHexDigits acc (c # cs) =
     (case hexDigit c of
        None \<Rightarrow> acc
      | Some d \<Rightarrow> parseHexDigits (Some (16 * (case acc of None \<Rightarrow> 0 | Some a \<Rightarrow> a) + d)) cs)"

definition parseInt16 :: "jsstring \<Rightarrow> nat option" where
  "parseInt16 g =
     parseHexDigits None
       (if startsWith g (js ''0x'') \<or> startsWith g (js ''0X'') then drop 2 g else g)"

definition fromCharCode :: "nat option \<Rightarrow> 16 word" where
  "fromCharCode n = (case n of None \<Rightarrow> 0 | Some k \<Rightarrow> word_of_nat k)"

fun decodeEscapedUnicodeCharacters :: "jsstring \<Rightarrow> jsstring" where
  "decodeEscapedUnicodeCharacters (c # u # g1 # g2 # g3 # g4 # rest) =
     (if c = 0x5C \<and> (u = 0x75 \<or> u = 0x55)
         \<and> isWordUnit g1 \<and> isWordUnit g2 \<and> isWordUnit g3 \<and> isWordUnit g4
      then fromCharCode (parseInt16 [g1, g2, g3, g4]) # decodeEscapedUnicodeCharacters rest
      else c # decodeEscapedUnicodeCharacters (u # g1 # g2 # g3 # g4 # rest))"
| "decodeEscapedUnicodeCharacters (c # cs) = c # decodeEscapedUnicodeCharacters cs"
| "decodeEscapedUnicodeCharacters [] = []"

text \<open>
  The dictionary from lower-cased to raw header names. It is built from every entry of
  the flat raw header list, the values as well as the names.
\<close>

definition getResponseRawHeaderNames :: "jsstring list \<Rightarrow> jsstring jsobject" where
  "getResponseRawHeaderNames raw =
     foldl (\<lambda>result header. obj_assign (toLowerCase header) header result) [] raw"

text \<open>
  \<open>headersDic[header] || header\<close>, and the loop that renames the response headers. The
  dictionary is an ordinary object: for a name that is not among its own properties
  the lookup finds the member of \<open>Object.prototype\<close> of that name, if there is one, and
  this truthy member, as a property name, becomes the name of the header.
\<close>

definition adjustedHeaderName :: "jsstring jsobject \<Rightarrow> jsstring \<Rightarrow> jsstring" where
  "adjustedHeaderName headersDic header =
     (case obj_get headersDic header of
        Some rawName \<Rightarrow> if rawName \<noteq> [] then rawName else header
      | None \<Rightarrow>
          (case objectPrototypeKey header of
             Some inherited \<Rightarrow> inherited
           | None \<Rightarrow> header))"

definition adjustResponseHeaders ::
  "jsstring jsobject \<Rightarrow> jsstring jsobject \<Rightarrow> jsstring jsobject" where
  "adjustResponseHeaders headersDic hs =
     foldl (\<lambda>adjusted (header, v).
              obj_assign (adjustedHeaderName headersDic header) v adjusted)
       [] hs"

text \<open>
  \<open>capitalizeHeaderName\<close>: the first code unit of every run of code units other than
  the hyphen is upper-cased (ASCII letters, as for \<open>toLowerCase\<close>).
\<close>

definition upperUnit :: "16 word \<Rightarrow> 16 word" where
  "upperUnit c = (if 0x61 \<le> c \<and> c \<le> 0x7A then c - 0x20 else c)"

fun capitalizeRuns :: "bool \<Rightarrow> jsstring \<Rightarrow> jsstring" where
  "capitalizeRuns atStart [] = []"
| "capitalizeRuns atStart (c # cs) =
     (if c = 0x2D then c # capitalizeRuns True cs
      else (if atStart then upperUnit c else c) # capitalizeRuns False cs)"

definition capitalizeHeaderName :: "jsstring jsobject option \<Rightarrow> jsstring jsobject" where
  "capitalizeHeaderName hs =
     (case hs of
        None \<Rightarrow> []
      | Some given \<Rightarrow>
          foldl (\<lambda>normalizedHeaders (header, v).
                   obj_assign (capitalizeRuns True header) v normalizedHeaders) [] given)"

text \<open>
  \<open>send\<close>. The \<open>response\<close> and \<open>data\<close> handlers have run when the transport resolves.
  \<open>getResponseRawHeaderNames\<close> calls \<open>forEach\<close> on the raw headers, which throws a
  \<open>TypeError\<close> when they are missing, as \<open>replace\<close> does on a body string left
  \<open>undefined\<close>.
\<close>

definition send ::
  "Environment \<Rightarrow> ('e, 't) Transport \<Rightarrow> RestClientSettings \<Rightarrow> 'e HttpRequest
     \<Rightarrow> 'e thrown + ('e, 't) HttpResponse" where
  "send env transport settings httpRequest =
     (case prepareOptions env settings httpRequest of
        Inl error \<Rightarrow> Inl (Thrown error)
      | Inr options \<Rightarrow>
     (let requestUrl = encodeUrl transport (url httpRequest) in
      case got transport requestUrl options of
        Inl error \<Rightarrow> Inl (Thrown error)
      | Inr response \<Rightarrow>
     (let headersSize = onResponse (rawHeaders response) 0;
          bodySize = foldl onData 0 (dataChunks response);
          encoding = detectEncoding (mimeCharset transport)
                       (obj_get (GotResponse.headers response) (js ''content-type''));
          bodyBuffer = GotResponse.body response
      in
      case decodeBody (iconv_decode transport) bodyBuffer encoding of
        Inl error \<Rightarrow> Inl (Thrown error)
      | Inr decoded \<Rightarrow>
     (case (if RestClientSettings.decodeEscapedUnicodeCharacters settings
            then (case decoded of
                    None \<Rightarrow> Inl TypeError
                  | Some str \<Rightarrow> Inr (Some (decodeEscapedUnicodeCharacters str)))
            else Inr decoded) of
        Inl error \<Rightarrow> Inl error
      | Inr bodyString \<Rightarrow>
     (case rawHeaders response of
        None \<Rightarrow> Inl TypeError
      | Some raw \<Rightarrow>
     (let headersDic = getResponseRawHeaderNames raw;
          adjustedResponseHeaders =
            adjustResponseHeaders headersDic (GotResponse.headers response);
          requestBody = GotBodyOptions.body options
      in
      Inr \<lparr>HttpResponse.statusCode = GotResponse.statusCode response,
           statusMessage = GotResponse.statusMessage response,
           httpVersion = GotResponse.httpVersion response,
           headers = adjustedResponseHeaders,
           body = bodyString,
           bodySizeInBytes = bodySize,
           headersSizeInBytes = headersSize,
           bodyBuffer = bodyBuffer,
           timingPhases = phases response,
           request =
             \<lparr>HttpRequest.requestMethod = GotBodyOptions.requestMethod options,
              url = requestUrl,
              headers = Some (capitalizeHeaderName (gotOptionsHeaders response)),
              body =
                (case requestBody of
                   None \<Rightarrow> None
                 | Some (BufferData b) \<Rightarrow>
                     Some (StreamBody \<lparr>chunks = [BufferChunk b], failure = None\<rparr>)
                 | Some (StringData str) \<Rightarrow> Some (StringBody str)),
              rawBody = rawBody httpRequest,
              requestVariableCacheKey = requestVariableCacheKey httpRequest\<rparr>\<rparr>))))))"

section \<open>Saving a response (ResponseController.getFullResponseString)\<close>

text \<open>A status code in a template literal: the decimal digits of a natural number.\<close>

function numberToString :: "nat \<Rightarrow> jsstring" where
  "numberToString n =
     (if n < 10 then [word_of_nat (48 + n)]
      else numberToString (n div 10) @ [word_of_nat (48 + n mod 10)])"
  by pat_completeness auto
termination
  by (relation "measure id") auto

text \<open>
  \<open>getFullResponseString\<close>, with \<open>os.EOL\<close> as the parameter \<open>eol\<close>. Every round of
  the loop calls \<open>response.headers.hasOwnProperty(header)\<close>. When the headers have an
  own property named \<open>hasOwnProperty\<close>, this is a string and not the inherited
  method, and the call throws a \<open>TypeError\<close>; otherwise the call is true of every
  enumerated name, and the round appends one line. The body follows an end of line
  when it is truthy.
\<close>

definition getFullResponseString ::
  "jsstring \<Rightarrow> ('e, 't) HttpResponse \<Rightarrow> 'e thrown + jsstring" where
  "getFullResponseString eol response =
     (let statusLine =
            js ''HTTP/'' @ HttpResponse.httpVersion response @ js '' ''
            @ numberToString (HttpResponse.statusCode response) @ js '' ''
            @ HttpResponse.statusMessage response @ eol
      in
      case foldl (\<lambda>state (header, v).
                    case state of
                      Inl error \<Rightarrow> Inl error
                    | Inr headerString \<Rightarrow>
                        (case obj_get (HttpResponse.headers response) (js ''hasOwnProperty'') of
                           Some notCallable \<Rightarrow> Inl TypeError
                         | None \<Rightarrow> Inr (headerString @ header @ js '': '' @ v @ eol)))
             (Inr []) (HttpResponse.headers response) of
        Inl error \<Rightarrow> Inl error
      | Inr headerString \<Rightarrow>
          (let bodyText =
                 (if truthy (HttpResponse.body response)
                  then eol @ the (HttpResponse.body response) else [])
           in Inr (statusLine @ headerString @ bodyText)))"

section \<open>Example values\<close>

text \<open>
  Modelled from the spec: the standard base64 encoding (RFC 4648, with padding) that
  section 4.1, step 5 asks for. It stands in the examples for \<open>base64\<close> of \<open>./misc\<close>, which
  is not among the sources, on ASCII text, whose code units are its bytes.
\<close>

definition base64Unit :: "nat \<Rightarrow> 16 word" where
  "base64Unit i =
     word_of_nat (if i < 26 then 65 + i
                  else if i < 52 then 97 + (i - 26)
                  else if i < 62 then 48 + (i - 52)
                  else if i = 62 then 43 else 47)"

fun base64Bytes :: "nat list \<Rightarrow> jsstring" where
  "base64Bytes (a # b # c # rest) =
     [base64Unit (a div 4), base64Unit ((a mod 4) * 16 + b div 16),
      base64Unit ((b mod 16) * 4 + c div 64), base64Unit (c mod 64)] @ base64Bytes rest"
| "base64Bytes [a, b] =
     [base64Unit (a div 4), base64Unit ((a mod 4) * 16 + b div 16),
      base64Unit ((b mod 16) * 4), 0x3D]"
| "base64Bytes [a] = [base64Unit (a div 4), base64Unit ((a mod 4) * 16), 0x3D, 0x3D]"
| "base64Bytes [] = []"

definition base64Ascii :: "jsstring \<Rightarrow> jsstring" where
  "base64Ascii s = base64Bytes (map unat s)"

text \<open>
  An environment, settings and a request for the examples: \<open>url.parse\<close> knows two
  URLs, one without and one with an explicit port, \<open>Buffer.from\<close> reads ASCII text, no
  host has a certificate, and three default headers are configured.
\<close>

definition exampleUrlParse :: "jsstring \<Rightarrow> UrlParts" where
  "exampleUrlParse u =
     (if u = js ''https://example.com/api''
      then \<lparr>protocol = Some (js ''https:''), host = Some (js ''example.com''),
            hostname = Some (js ''example.com''), port = None\<rparr>
      else if u = js ''http://example.com:8080/''
      then \<lparr>protocol = Some (js ''http:''), host = Some (js ''example.com:8080''),
            hostname = Some (js ''example.com''), port = Some (js ''8080'')\<rparr>
      else \<lparr>protocol = None, host = None, hostname = None, port = None\<rparr>)"

definition asciiBytes :: "jsstring \<Rightarrow> bytes" where
  "asciiBytes s = map ucast s"

definition exampleEnvironment :: Environment where
  "exampleEnvironment =
     \<lparr>url_parse = exampleUrlParse,
      bufferFrom = asciiBytes,
      base64 = base64Ascii,
      getRequestCertificate = (\<lambda>u. None)\<rparr>"

definition exampleSettings :: RestClientSettings where
  "exampleSettings =
     \<lparr>RestClientSettings.followRedirect = True,
      rememberCookiesForSubsequentRequests = False,
      timeoutInMilliseconds = 0,
      proxy = None,
      excludeHostsForProxy = None,
      proxyStrictSSL = False,
      defaultHeaders =
        [(js ''User-Agent'', js ''vscode-restclient''),
         (js ''Content-Type'', js ''application/json''),
         (js ''Host'', js ''example.org'')],
      decodeEscapedUnicodeCharacters = False\<rparr>"

definition exampleRequest :: "jsstring jsobject \<Rightarrow> unit HttpRequest" where
  "exampleRequest hs =
     \<lparr>HttpRequest.requestMethod = js ''GET'', url = js ''https://example.com/api'',
      headers = Some hs, body = None, rawBody = None, requestVariableCacheKey = None\<rparr>"

text \<open>
  A transport for the examples. Its decoder knows \<open>utf8\<close>, \<open>utf-8\<close> and \<open>latin1\<close>,
  reads ASCII bytes, and fails on every other encoding name, as \<open>iconv.decode\<close> does
  on a name that it does not recognise. The response names the charset \<open>x-unknown\<close>.
\<close>

definition exampleDecode :: "bytes \<Rightarrow> jsstring \<Rightarrow> unit + jsstring" where
  "exampleDecode buffer encoding =
     (if toLowerCase encoding \<in> {js ''utf8'', js ''utf-8'', js ''latin1''}
      then Inr (map ucast buffer) else Inl ())"

definition exampleGotResponse :: "unit GotResponse" where
  "exampleGotResponse =
     \<lparr>GotResponse.statusCode = 200, statusMessage = js ''OK'', httpVersion = js ''1.1'',
      headers = [(js ''content-type'', js ''text/plain; charset=x-unknown''),
                 (js ''x-id'', js ''7'')],
      rawHeaders = Some [js ''Content-Type'', js ''text/plain; charset=x-unknown'',
                         js ''X-Id'', js ''7''],
      body = [0x68, 0x69],
      dataChunks = [[0x68], [0x69]],
      phases = (),
      gotOptionsHeaders = Some [(js ''user-agent'', js ''vscode-restclient'')]\<rparr>"

definition exampleTransport :: "(unit, unit) Transport" where
  "exampleTransport =
     \<lparr>encodeUrl = (\<lambda>u. u),
      got = (\<lambda>u options. Inr exampleGotResponse),
      mimeCharset = (\<lambda>contentType. if contentType = js ''text/plain; charset=x-unknown''
                                     then Some (js ''x-unknown'') else None),
      iconv_decode = exampleDecode\<rparr>"

section \<open>Evaluation and basic facts\<close>

declare splitWhiteSpace.simps [simp del]
declare numberToString.simps [simp del]

lemma js_eq_Nil [simp]: "(js s = []) = (s = [])"
  by (simp add: js_def)

lemma obj_set_new: "k \<notin> fst ` set obj \<Longrightarrow> obj_set k v obj = obj @ [(k, v)]"
  by (induction obj) auto

lemma hasHeader_append: "hasHeader (xs @ ys) name = (hasHeader xs name \<or> hasHeader ys name)"
  by (simp add: hasHeader_def)

lemma not_hasHeader_not_key: "\<not> hasHeader hs name \<Longrightarrow> name \<notin> fst ` set hs"
  by (auto simp: hasHeader_def list_ex_iff)

lemma addDefaultHeader_cases:
  "addDefaultHeader requestUrl hs (name, v) = hs
   \<or> (addDefaultHeader requestUrl hs (name, v) = hs @ [(name, v)]
      \<and> \<not> hasHeader hs name \<and> v \<noteq> []
      \<and> (toLowerCase name \<noteq> js ''host'' \<or> take 1 requestUrl = js ''/''))"
  by (auto simp: addDefaultHeader_def obj_assign_def obj_set_new not_hasHeader_not_key)

lemma addDefaultHeaders_fold:
  "\<exists>added. foldl (addDefaultHeader requestUrl) hs defaults = hs @ added
     \<and> (\<forall>(name, v) \<in> set added.
           (name, v) \<in> set defaults \<and> \<not> hasHeader hs name \<and> v \<noteq> []
           \<and> (toLowerCase name = js ''host'' \<longrightarrow> take 1 requestUrl = js ''/''))"
proof (induction defaults arbitrary: hs)
  case Nil
  then show ?case by simp
next
  case (Cons d defaults)
  obtain name v where d: "d = (name, v)" by (cases d)
  let ?hs1 = "addDefaultHeader requestUrl hs (name, v)"
  from Cons.IH [of ?hs1] obtain added where
    fold: "foldl (addDefaultHeader requestUrl) ?hs1 defaults = ?hs1 @ added"
    and ok: "\<forall>(n, w) \<in> set added.
           (n, w) \<in> set defaults \<and> \<not> hasHeader ?hs1 n \<and> w \<noteq> []
           \<and> (toLowerCase n = js ''host'' \<longrightarrow> take 1 requestUrl = js ''/'')"
    by blast
  from addDefaultHeader_cases [of requestUrl hs name v] show ?case
  proof
    assume same: "?hs1 = hs"
    with fold ok d show ?thesis by auto
  next
    assume new: "?hs1 = hs @ [(name, v)]
      \<and> \<not> hasHeader hs name \<and> v \<noteq> []
      \<and> (toLowerCase name \<noteq> js ''host'' \<or> take 1 requestUrl = js ''/'')"
    then have eq: "?hs1 = hs @ [(name, v)]" by simp
    have "foldl (addDefaultHeader requestUrl) hs (d # defaults) = hs @ ((name, v) # added)"
      using fold eq d by simp
    moreover have "\<forall>(n, w) \<in> set ((name, v) # added).
           (n, w) \<in> set (d # defaults) \<and> \<not> hasHeader hs n \<and> w \<noteq> []
           \<and> (toLowerCase n = js ''host'' \<longrightarrow> take 1 requestUrl = js ''/'')"
      using ok new d by (auto simp: hasHeader_append)
    ultimately show ?thesis by blast
  qed
qed

lemma numberToString_200: "numberToString 200 = js ''200''"
  by code_simp

lemma headers_setDecompress [simp]:
  "GotBodyOptions.headers (setDecompress options) = GotBodyOptions.headers options"
  "hooks (setDecompress options) = hooks options"
  by (simp_all add: setDecompress_def split: option.splits)

lemma headers_setProxy [simp]:
  "GotBodyOptions.headers (setProxy env settings httpRequest options)
     = GotBodyOptions.headers options"
  "hooks (setProxy env settings httpRequest options) = hooks options"
  by (simp_all add: setProxy_def Let_def)

lemma headers_setCertificate [simp]:
  "GotBodyOptions.headers (setCertificate env httpRequest options)
     = GotBodyOptions.headers options"
  "hooks (setCertificate env httpRequest options) = hooks options"
  by (simp_all add: setCertificate_def split: option.splits)

lemma hooks_addDefaultHeaders [simp]:
  "hooks (addDefaultHeaders settings httpRequest options) = hooks options"
  by (simp add: addDefaultHeaders_def)

lemma headers_addDefaultHeaders:
  "\<exists>added. GotBodyOptions.headers (addDefaultHeaders settings httpRequest options)
     = GotBodyOptions.headers options @ added"
  using addDefaultHeaders_fold [of "url httpRequest" "GotBodyOptions.headers options"
      "defaultHeaders settings"]
  by (auto simp: addDefaultHeaders_def)

lemma obj_get_append_Some: "obj_get hs k = Some v \<Longrightarrow> obj_get (hs @ added) k = Some v"
  by (simp add: obj_get_def)

lemma getHeader_append_Some:
  "getHeader hs name = Some v \<Longrightarrow> getHeader (hs @ added) name = Some v"
  unfolding getHeader_def by (induction hs) (auto split: if_splits)

lemma splitUnit_no_sep: "sep \<notin> set s \<Longrightarrow> splitUnit sep s = [s]"
  by (induction s) auto

lemma splitUnit_sep: "sep \<notin> set a \<Longrightarrow> splitUnit sep (a @ sep # r) = a # splitUnit sep r"
  by (induction a) auto

lemma append_sep_eq:
  fixes sep :: "16 word"
  assumes "sep \<notin> set x" and "sep \<notin> set y"
  shows "(x @ sep # y = u @ sep # v) = (x = u \<and> y = v)"
proof
  assume eq: "x @ sep # y = u @ sep # v"
  have "splitUnit sep (x @ sep # y) = [x, y]"
    using assms by (simp add: splitUnit_sep splitUnit_no_sep)
  show "x = u \<and> y = v"
  proof (cases "sep \<in> set u")
    case False
    then have "splitUnit sep (u @ sep # v) = u # splitUnit sep v"
      by (simp add: splitUnit_sep)
    with eq \<open>splitUnit sep (x @ sep # y) = [x, y]\<close> have "x = u" by simp
    with eq show ?thesis by simp
  next
    case True
    then obtain u1 u2 where u: "u = u1 @ sep # u2" and "sep \<notin> set u1"
      by (meson split_list_first)
    then have "splitUnit sep (u @ sep # v) = u1 # splitUnit sep (u2 @ sep # v)"
      by (simp add: splitUnit_sep)
    with eq \<open>splitUnit sep (x @ sep # y) = [x, y]\<close>
    have "x = u1" by simp
    with eq u have "y = u2 @ sep # v" by simp
    with assms(2) show ?thesis by simp
  qed
qed auto

lemma lowerUnit_colon: "(lowerUnit c = 0x3A) = (c = 0x3A)"
  unfolding lowerUnit_def
  by (auto simp: word_le_nat_alt unat_word_ariths)

lemma colon_toLowerCase: "(0x3A \<in> set (toLowerCase s)) = (0x3A \<in> set s)"
  by (induction s) (auto simp: toLowerCase_def lowerUnit_colon)

lemma wellFormedEntry_cases:
  assumes "wellFormedEntry e"
  shows "0x3A \<notin> set e
    \<or> (\<exists>a b. e = a @ 0x3A # b \<and> 0x3A \<notin> set a \<and> 0x3A \<notin> set b \<and> b \<noteq> [])"
proof (cases "0x3A \<in> set e")
  case False
  then show ?thesis by simp
next
  case True
  then obtain a b where e: "e = a @ 0x3A # b" and a: "0x3A \<notin> set a"
    by (meson split_list_first)
  from assms e have "length (filter (\<lambda>c. c = 0x3A) b) = 0"
    by (simp add: wellFormedEntry_def)
  then have b: "0x3A \<notin> set b"
    by (auto simp: filter_empty_conv)
  from assms e have "b \<noteq> []"
    by (auto simp: wellFormedEntry_def)
  with e a b show ?thesis by blast
qed

lemma ignoreProxyLoop_iff:
  "ignoreProxyLoop hostName urlPort entries
     = (\<exists>eh \<in> set entries. ignoreProxyLoop hostName urlPort [eh])"
  by (induction entries) (auto simp: Let_def)

lemma ignoreProxy_iff:
  "ignoreProxy parse requestUrl (Some excluded)
     = (\<exists>entry \<in> set excluded.
          ignoreProxyLoop (map_option toLowerCase (hostname (parse requestUrl)))
            (port (parse requestUrl)) [toLowerCase entry])"
proof -
  have "set (rev (remdups (rev (map toLowerCase excluded)))) = toLowerCase ` set excluded"
    by simp
  then show ?thesis
    unfolding ignoreProxy_def Let_def
    by (subst ignoreProxyLoop_iff) (auto simp del: ignoreProxyLoop.simps)
qed

lemma entry_bare:
  assumes "0x3A \<notin> set e"
  shows "ignoreProxyLoop (map_option toLowerCase hn) p [toLowerCase e]
     = exclusionEntryMatches hn p e"
proof -
  have parts: "splitUnit 0x3A (toLowerCase e) = [toLowerCase e]"
    using assms by (simp add: splitUnit_no_sep colon_toLowerCase)
  have no: "toLowerCase e \<noteq> x @ js '':'' @ y" for x y
  proof
    assume "toLowerCase e = x @ js '':'' @ y"
    then have "0x3A \<in> set (toLowerCase e)" by (simp add: js_def)
    with assms show False by (simp add: colon_toLowerCase)
  qed
  show ?thesis
    using assms parts no
    by (cases hn; cases p) (auto simp: exclusionEntryMatches_def Let_def)
qed

lemma entry_host_port:
  assumes "0x3A \<notin> set a" and "0x3A \<notin> set b" and "b \<noteq> []"
  shows "ignoreProxyLoop (map_option toLowerCase hn) p [toLowerCase (a @ 0x3A # b)]
     = exclusionEntryMatches hn p (a @ 0x3A # b)"
proof -
  have low: "toLowerCase (a @ 0x3A # b) = toLowerCase a @ 0x3A # toLowerCase b"
    by (simp add: toLowerCase_def lowerUnit_def)
  have la: "0x3A \<notin> set (toLowerCase a)" and lb: "0x3A \<notin> set (toLowerCase b)"
    using assms by (simp_all add: colon_toLowerCase)
  have parts: "splitUnit 0x3A (toLowerCase (a @ 0x3A # b)) = [toLowerCase a, toLowerCase b]"
    unfolding low using la lb by (simp add: splitUnit_sep splitUnit_no_sep)
  have lbne: "toLowerCase b \<noteq> []" using assms(3) by (simp add: toLowerCase_def)
  have eq: "(toLowerCase a @ 0x3A # toLowerCase b = x @ js '':'' @ y)
      = (toLowerCase a = x \<and> toLowerCase b = y)" for x y
    using append_sep_eq [OF la lb, of x y] by (simp add: js_def)
  show ?thesis
    unfolding exclusionEntryMatches_def
    using parts lbne eq low
    by (cases hn; cases p) (auto simp: Let_def)
qed

lemma entry_wellFormed:
  assumes "wellFormedEntry e"
  shows "ignoreProxyLoop (map_option toLowerCase hn) p [toLowerCase e]
     = exclusionEntryMatches hn p e"
  using wellFormedEntry_cases [OF assms] entry_bare entry_host_port by blast

lemma exampleUrlParse_port:
  "hostname (exampleUrlParse (js ''http://example.com:8080/'')) = Some (js ''example.com'')"
  "port (exampleUrlParse (js ''http://example.com:8080/'')) = Some (js ''8080'')"
  by (simp_all add: exampleUrlParse_def js_def)

lemma exampleUrlParse_no_port:
  "hostname (exampleUrlParse (js ''https://example.com/api'')) = Some (js ''example.com'')"
  "port (exampleUrlParse (js ''https://example.com/api'')) = None"
  by (simp_all add: exampleUrlParse_def)

lemma foldl_add_sum_list: "foldl (\<lambda>a b. a + b) (a0 :: nat) xs = a0 + sum_list xs"
  by (induction xs arbitrary: a0) auto

lemma foldl_onData: "foldl onData n received = n + sum_list (map length received)"
  by (induction received arbitrary: n) (auto simp: onData_def)

lemma onResponse_Some:
  "onResponse (Some raw) 0 = of_nat (sum_list (map length raw)) + of_nat (length raw) / 2"
  by (simp add: onResponse_def foldl_add_sum_list)

lemma pairs_flat:
  "sum_list (map length (concat (map (\<lambda>(name, v). [name, v]) pairs)))
     = sum_list (map (\<lambda>(name, v). length name + length v) pairs)"
  "length (concat (map (\<lambda>(name, v). [name, v]) pairs)) = 2 * length pairs"
  by (induction pairs) auto

lemma send_sizes:
  assumes "prepareOptions env settings httpRequest = Inr options"
    and "got transport (encodeUrl transport (url httpRequest)) options = Inr response"
    and "send env transport settings httpRequest = Inr materialized"
  shows "headersSizeInBytes materialized = onResponse (rawHeaders response) 0"
    and "bodySizeInBytes materialized = foldl onData 0 (dataChunks response)"
  using assms
  by (auto simp: send_def Let_def split: sum.splits option.splits if_splits)

lemma send_returns:
  assumes "prepareOptions env settings httpRequest = Inr options"
    and "got transport (encodeUrl transport (url httpRequest)) options = Inr response"
    and "rawHeaders response = Some raw"
    and "decodeBody (iconv_decode transport) (GotResponse.body response)
           (detectEncoding (mimeCharset transport)
              (obj_get (GotResponse.headers response) (js ''content-type''))) = Inr (Some str)"
  shows "\<exists>materialized. send env transport settings httpRequest = Inr materialized
     \<and> HttpResponse.body materialized =
         Some (if RestClientSettings.decodeEscapedUnicodeCharacters settings
               then decodeEscapedUnicodeCharacters str else str)
     \<and> headersSizeInBytes materialized = onResponse (Some raw) 0
     \<and> bodySizeInBytes materialized = foldl onData 0 (dataChunks response)"
  using assms by (simp add: send_def Let_def)

lemma example_prepareOptions:
  "\<exists>options. prepareOptions exampleEnvironment exampleSettings (exampleRequest []) = Inr options"
  by (simp add: prepareOptions_def prepareBody_def exampleRequest_def)

lemma example_got:
  "got exampleTransport requestUrl options = Inr exampleGotResponse"
  by (simp add: exampleTransport_def)

lemma example_rawHeaders:
  "rawHeaders exampleGotResponse
     = Some (concat (map (\<lambda>(name, v). [name, v])
         [(js ''Content-Type'', js ''text/plain; charset=x-unknown''), (js ''X-Id'', js ''7'')]))"
  by (simp add: exampleGotResponse_def)

lemma example_utf8:
  "iconv_decode exampleTransport (GotResponse.body exampleGotResponse) (js ''utf8'')
     = Inr (js ''hi'')"
  by (simp add: exampleTransport_def exampleGotResponse_def exampleDecode_def
        toLowerCase_def lowerUnit_def js_def)

lemma example_unknown:
  "detectEncoding (mimeCharset exampleTransport)
     (obj_get (GotResponse.headers exampleGotResponse) (js ''content-type'')) = js ''x-unknown''"
  "iconv_decode exampleTransport (GotResponse.body exampleGotResponse) (js ''x-unknown'')
     = Inl ()"
  by (simp_all add: detectEncoding_def exampleTransport_def exampleGotResponse_def
        exampleDecode_def obj_get_def toLowerCase_def lowerUnit_def js_def)

lemma example_decodeBody:
  "decodeBody (iconv_decode exampleTransport) (GotResponse.body exampleGotResponse)
     (detectEncoding (mimeCharset exampleTransport)
        (obj_get (GotResponse.headers exampleGotResponse) (js ''content-type'')))
   = Inr (Some (js ''hi''))"
proof -
  have "js ''x-unknown'' \<noteq> js ''utf8''" by (simp add: js_def)
  then show ?thesis
    by (simp add: decodeBody_def example_unknown example_utf8)
qed

lemma split_user_pass:
  "splitWhiteSpace (js ''Basic user pass'') = [js ''Basic'', js ''user'', js ''pass'']"
  by code_simp

lemma getFullResponseString_example:
  "getFullResponseString eol
     \<lparr>HttpResponse.statusCode = 200, statusMessage = js ''OK'', httpVersion = js ''1.1'',
      headers = [(js ''content-type'', js ''text/plain'')], body = Some (js ''hi''),
      bodySizeInBytes = size1, headersSizeInBytes = size2, bodyBuffer = buffer,
      timingPhases = timing, request = sent\<rparr>
   = Inr (js ''HTTP/1.1 200 OK'' @ eol @ js ''content-type: text/plain'' @ eol @ eol
          @ js ''hi'')"
proof -
  have "js ''content-type'' \<noteq> js ''hasOwnProperty''" by (simp add: js_def)
  then show ?thesis
    unfolding getFullResponseString_def Let_def
    by (simp add: numberToString_200 obj_get_def) (simp add: js_def)
qed

lemma example_dictionary:
  "getResponseRawHeaderNames [js ''x-id'', js ''7'', js ''X-Ref'', js ''X-ID'']
     = [(js ''x-id'', js ''X-ID''), (js ''7'', js ''7''), (js ''x-ref'', js ''X-Ref'')]"
  by (simp add: getResponseRawHeaderNames_def obj_assign_def obj_get_def toLowerCase_def
        lowerUnit_def js_def)

lemma header_case_restoration_prototype_member:
  "adjustResponseHeaders (getResponseRawHeaderNames [js ''hasOwnProperty'', js ''1''])
     [(js ''hasownproperty'', js ''1'')] = [(js ''hasOwnProperty'', js ''1'')]
   \<and> adjustResponseHeaders (getResponseRawHeaderNames [js ''hasOwnProperty'', js ''1''])
     [(js ''hasOwnProperty'', js ''1'')]
     = [(js ''function hasOwnProperty() { [native code] }'', js ''1'')]"
  by (simp add: getResponseRawHeaderNames_def adjustResponseHeaders_def adjustedHeaderName_def
        obj_get_def objectPrototypeKey_def objectPrototypeMethods_def obj_assign_def
        toLowerCase_def lowerUnit_def js_def)

section \<open>Properties of the request lifecycle store\<close>

text \<open>
  Claim C2. From any state of the store, after \<open>add(id1, req1)\<close> and then
  \<open>add(id2, req2)\<close> with non-empty identifiers, the current pointer is \<open>id2\<close> and
  \<open>getLatest()\<close> returns \<open>req2\<close>, whether or not \<open>id1\<close> was completed. After
  \<open>cancel(id1)\<close> this is still so, \<open>isCancelled(id1)\<close> is true, and the answer of
  \<open>isCancelled(id2)\<close> for a different identifier \<open>id2\<close> is the one it had in the
  starting state: false if it was false.
\<close>

theorem add_add_cancel:
  assumes "id1 \<noteq> []" and "id2 \<noteq> []"
  shows "currentRequestId (add (Some id2) (Some req2) (add (Some id1) (Some req1) s)) = Some id2
       \<and> getLatest (add (Some id2) (Some req2) (add (Some id1) (Some req1) s)) = Some req2
       \<and> getLatest (cancel (Some id1) (add (Some id2) (Some req2) (add (Some id1) (Some req1) s)))
           = Some req2
       \<and> isCancelled (Some id1)
           (cancel (Some id1) (add (Some id2) (Some req2) (add (Some id1) (Some req1) s)))
       \<and> isCancelled (Some id2)
           (cancel (Some id1) (add (Some id2) (Some req2) (add (Some id1) (Some req1) s)))
           = (id2 = id1 \<or> isCancelled (Some id2) s)"
  using assms by (auto simp: getLatest_def cancel_def isCancelled_def Let_def)

theorem add_add_cancel_witness:
  "currentRequestId (add (Some (js ''b'')) (Some (2::nat))
       (add (Some (js ''a'')) (Some 1) emptyStore)) = Some (js ''b'')
   \<and> getLatest (add (Some (js ''b'')) (Some (2::nat))
       (add (Some (js ''a'')) (Some 1) emptyStore)) = Some 2
   \<and> isCancelled (Some (js ''a''))
       (cancel (Some (js ''a'')) (add (Some (js ''b'')) (Some (2::nat))
          (add (Some (js ''a'')) (Some 1) emptyStore)))
   \<and> \<not> isCancelled (Some (js ''b''))
       (cancel (Some (js ''a'')) (add (Some (js ''b'')) (Some (2::nat))
          (add (Some (js ''a'')) (Some 1) emptyStore)))"
proof -
  have ne: "js ''a'' \<noteq> []" "js ''b'' \<noteq> []" by simp_all
  have diff: "js ''b'' \<noteq> js ''a''" by (simp add: js_def)
  have start: "\<not> isCancelled (Some (js ''b'')) (emptyStore :: nat RequestStore)"
    by (simp add: isCancelled_def emptyStore_def)
  from add_add_cancel [OF ne, of "2::nat" "1::nat" emptyStore] diff start
  show ?thesis by simp
qed

section \<open>Properties of the saved response\<close>

text \<open>
  Claim C5, failing input. A response that has a header named \<open>hasOwnProperty\<close>, as
  \<open>send\<close> delivers it when the server sends one, is not rendered: the first round of
  the loop calls \<open>response.headers.hasOwnProperty\<close>, which is the value of that header
  and not the inherited method, and \<open>getFullResponseString\<close> throws a \<open>TypeError\<close>
  instead of returning the status line, the header lines and the body.
\<close>

theorem getFullResponseString_hasOwnProperty_header:
  "getFullResponseString eol
     \<lparr>HttpResponse.statusCode = 200, statusMessage = js ''OK'', httpVersion = js ''1.1'',
      headers = [(js ''content-type'', js ''text/plain''), (js ''hasOwnProperty'', js ''1'')],
      body = Some (js ''hi''),
      bodySizeInBytes = size1, headersSizeInBytes = size2, bodyBuffer = buffer,
      timingPhases = timing, request = sent\<rparr>
   = Inl TypeError"
proof -
  have "js ''content-type'' \<noteq> js ''hasOwnProperty''" by (simp add: js_def)
  then show ?thesis
    by (simp add: getFullResponseString_def obj_get_def)
qed

section \<open>Properties of the response headers\<close>

text \<open>
  Claim C9, failing input. For the raw header list \<open>x-id, 7, X-Ref, X-ID\<close> the
  dictionary maps \<open>x-id\<close> to \<open>X-ID\<close>, the value of the second header, because it is
  built from the values as well as the names. The header set that carries the names as
  they were sent, \<open>x-id\<close> and \<open>X-Ref\<close>, is therefore not returned unchanged: its
  header \<open>x-id\<close> is renamed to \<open>X-ID\<close>, as is that of the lower-cased header set that
  the transport delivers.
\<close>

theorem header_case_restoration_changes_sent_names:
  "adjustResponseHeaders
     (getResponseRawHeaderNames [js ''x-id'', js ''7'', js ''X-Ref'', js ''X-ID''])
     [(js ''x-id'', js ''7''), (js ''X-Ref'', js ''X-ID'')]
   = [(js ''X-ID'', js ''7''), (js ''X-Ref'', js ''X-ID'')]
   \<and> adjustResponseHeaders
     (getResponseRawHeaderNames [js ''x-id'', js ''7'', js ''X-Ref'', js ''X-ID''])
     [(js ''x-id'', js ''7''), (js ''x-ref'', js ''X-ID'')]
   = [(js ''X-ID'', js ''7''), (js ''X-Ref'', js ''X-ID'')]"
  unfolding example_dictionary
  by (simp add: adjustResponseHeaders_def adjustedHeaderName_def obj_get_def
        objectPrototypeKey_def objectPrototypeMethods_def obj_assign_def js_def)

section \<open>Properties of the request options\<close>

text \<open>
  Claim C6. The merge of the configured default headers keeps the headers that
  the request has, names, values and order, and puts the added ones behind them. A
  header is added only when it is a configured default header and no header of the
  request has the same name up to letter case; a default header whose lower-cased name
  is \<open>host\<close> is added only when the URL of the request starts with \<open>/\<close>.
\<close>

theorem default_header_merge:
  "\<exists>added.
     GotBodyOptions.headers (addDefaultHeaders settings httpRequest options)
       = GotBodyOptions.headers options @ added
     \<and> (\<forall>(name, v) \<in> set added.
           (name, v) \<in> set (defaultHeaders settings)
           \<and> \<not> hasHeader (GotBodyOptions.headers options) name
           \<and> (toLowerCase name = js ''host'' \<longrightarrow> take 1 (url httpRequest) = js ''/''))"
  using addDefaultHeaders_fold [of "url httpRequest" "GotBodyOptions.headers options"
      "defaultHeaders settings"]
  by (auto simp: addDefaultHeaders_def)

theorem default_header_merge_witness:
  "obj_get (GotBodyOptions.headers
       (addDefaultHeaders exampleSettings (exampleRequest [(js ''content-type'', js ''text/plain'')])
          (baseOptions exampleSettings
             (exampleRequest [(js ''content-type'', js ''text/plain'')]) None)))
     (js ''content-type'') = Some (js ''text/plain'')
   \<and> js ''Content-Type'' \<notin> fst ` set (GotBodyOptions.headers
       (addDefaultHeaders exampleSettings (exampleRequest [(js ''content-type'', js ''text/plain'')])
          (baseOptions exampleSettings
             (exampleRequest [(js ''content-type'', js ''text/plain'')]) None)))
   \<and> js ''Host'' \<notin> fst ` set (GotBodyOptions.headers
       (addDefaultHeaders exampleSettings (exampleRequest [(js ''content-type'', js ''text/plain'')])
          (baseOptions exampleSettings
             (exampleRequest [(js ''content-type'', js ''text/plain'')]) None)))"
proof -
  let ?hs = "[(js ''content-type'', js ''text/plain'')]"
  let ?request = "exampleRequest ?hs"
  let ?options = "baseOptions exampleSettings ?request None"
  have base: "GotBodyOptions.headers ?options = ?hs"
    by (simp add: baseOptions_def exampleRequest_def)
  from default_header_merge [of exampleSettings ?request ?options] obtain added where
    merged: "GotBodyOptions.headers (addDefaultHeaders exampleSettings ?request ?options)
        = ?hs @ added"
    and only: "\<forall>(name, v) \<in> set added.
        (name, v) \<in> set (defaultHeaders exampleSettings)
        \<and> \<not> hasHeader ?hs name
        \<and> (toLowerCase name = js ''host'' \<longrightarrow> take 1 (url ?request) = js ''/'')"
    unfolding base by blast
  have kept: "obj_get (?hs @ added) (js ''content-type'') = Some (js ''text/plain'')"
    by (simp add: obj_get_def)
  have present: "hasHeader ?hs (js ''Content-Type'')"
    by (simp add: hasHeader_def toLowerCase_def lowerUnit_def js_def)
  have host: "toLowerCase (js ''Host'') = js ''host''"
    by (simp add: toLowerCase_def lowerUnit_def js_def)
  have absolute: "take 1 (url ?request) \<noteq> js ''/''"
    by (simp add: exampleRequest_def js_def)
  have "js ''Content-Type'' \<notin> fst ` set added"
    using only present by fastforce
  moreover have "js ''Host'' \<notin> fst ` set added"
    using only host absolute by fastforce
  moreover have "js ''Content-Type'' \<noteq> js ''content-type''" "js ''Host'' \<noteq> js ''content-type''"
    by (simp_all add: js_def)
  ultimately show ?thesis
    unfolding merged using kept by auto
qed

text \<open>
  Claim C1, failing input. For a request with the header
  \<open>authorization: Basic user pass\<close>, named in lower case, the value is found without
  regard to letter case and splits into \<open>Basic\<close>, a user and a password, but the
  encoded value is written under the fixed name \<open>Authorization\<close>. The options have
  both headers: the header of the request keeps the value \<open>Basic user pass\<close>, which
  is also what the lookup without regard to letter case still gives, and the header
  value is not replaced by \<open>Basic\<close> and the base64 encoding of \<open>user:pass\<close>.
\<close>

theorem basic_authorization_lower_case_name:
  "\<exists>options.
     prepareOptions exampleEnvironment exampleSettings
       (exampleRequest [(js ''authorization'', js ''Basic user pass'')]) = Inr options
     \<and> GotBodyOptions.headers options
         = [(js ''authorization'', js ''Basic user pass''),
            (js ''Authorization'', js ''Basic dXNlcjpwYXNz''),
            (js ''User-Agent'', js ''vscode-restclient''),
            (js ''Content-Type'', js ''application/json'')]
     \<and> getHeader (GotBodyOptions.headers options) (js ''Authorization'')
         = Some (js ''Basic user pass'')"
proof -
  let ?hs = "[(js ''authorization'', js ''Basic user pass'')]"
  let ?base = "baseOptions exampleSettings (exampleRequest ?hs) None"
  have low: "toLowerCase (js ''authorization'') = toLowerCase (js ''Authorization'')"
    by (simp add: toLowerCase_def lowerUnit_def js_def)
  have found: "getHeader ?hs (js ''Authorization'') = Some (js ''Basic user pass'')"
    by (simp add: getHeader_def low)
  have encoded: "js ''Basic '' @ base64 exampleEnvironment
      (js ''user'' @ js '':'' @ js ''pass'') = js ''Basic dXNlcjpwYXNz''"
    by (simp add: exampleEnvironment_def base64Ascii_def js_def base64Unit_def)
  have names: "js ''authorization'' \<noteq> js ''Authorization''"
    "js ''Authorization'' \<noteq> js ''__proto__''"
    by (simp_all add: js_def)
  have base: "GotBodyOptions.headers ?base = ?hs"
    by (simp add: baseOptions_def exampleRequest_def)
  have auth: "GotBodyOptions.headers (setAuthorization exampleEnvironment ?base)
      = [(js ''authorization'', js ''Basic user pass''),
         (js ''Authorization'', js ''Basic dXNlcjpwYXNz'')]"
    unfolding setAuthorization_def base found
    using names by (simp add: split_user_pass encoded obj_assign_def)
  let ?auth = "setProxy exampleEnvironment exampleSettings (exampleRequest ?hs)
      (setCertificate exampleEnvironment (exampleRequest ?hs)
         (setAuthorization exampleEnvironment ?base))"
  have rewritten: "GotBodyOptions.headers ?auth
      = [(js ''authorization'', js ''Basic user pass''),
         (js ''Authorization'', js ''Basic dXNlcjpwYXNz'')]"
    by (simp add: auth)
  have defaults: "foldl (addDefaultHeader (url (exampleRequest ?hs)))
      [(js ''authorization'', js ''Basic user pass''),
       (js ''Authorization'', js ''Basic dXNlcjpwYXNz'')]
      (defaultHeaders exampleSettings)
      = [(js ''authorization'', js ''Basic user pass''),
         (js ''Authorization'', js ''Basic dXNlcjpwYXNz''),
         (js ''User-Agent'', js ''vscode-restclient''),
         (js ''Content-Type'', js ''application/json'')]"
    by (simp add: exampleSettings_def exampleRequest_def addDefaultHeader_def
          hasHeader_def obj_assign_def obj_get_def toLowerCase_def lowerUnit_def js_def)
  have merged: "GotBodyOptions.headers
      (addDefaultHeaders exampleSettings (exampleRequest ?hs) ?auth)
      = [(js ''authorization'', js ''Basic user pass''),
         (js ''Authorization'', js ''Basic dXNlcjpwYXNz''),
         (js ''User-Agent'', js ''vscode-restclient''),
         (js ''Content-Type'', js ''application/json'')]"
    unfolding addDefaultHeaders_def rewritten using defaults by simp
  have result: "prepareOptions exampleEnvironment exampleSettings (exampleRequest ?hs)
      = Inr (setDecompress (addDefaultHeaders exampleSettings (exampleRequest ?hs) ?auth))"
    by (simp add: prepareOptions_def prepareBody_def exampleRequest_def)
  have still: "getHeader [(js ''authorization'', js ''Basic user pass''),
         (js ''Authorization'', js ''Basic dXNlcjpwYXNz''),
         (js ''User-Agent'', js ''vscode-restclient''),
         (js ''Content-Type'', js ''application/json'')] (js ''Authorization'')
      = Some (js ''Basic user pass'')"
    by (simp add: getHeader_def low)
  from result merged still show ?thesis by simp
qed

text \<open>
  Claim C10. When the value of the \<open>Authorization\<close> header of the request splits at
  white space into at most two pieces, whatever the first piece is, \<open>prepareOptions\<close>
  returns options in which the header still has that value, no response hook for
  Digest authentication is installed, and the headers of the request are kept as they
  are, in front of the default headers that were added.
\<close>

theorem short_authorization_unchanged:
  assumes body: "prepareBody env (HttpRequest.body httpRequest) = Inr requestBody"
    and hs: "HttpRequest.headers httpRequest = Some hs"
    and auth: "getHeader hs (js ''Authorization'') = Some authorization"
    and len: "length (splitWhiteSpace authorization) \<le> 2"
  shows "\<exists>options. prepareOptions env settings httpRequest = Inr options
     \<and> getHeader (GotBodyOptions.headers options) (js ''Authorization'') = Some authorization
     \<and> hooks options = None
     \<and> (\<exists>added. GotBodyOptions.headers options = hs @ added)"
proof -
  let ?base = "baseOptions settings httpRequest requestBody"
  have base: "GotBodyOptions.headers ?base = hs" "hooks ?base = None"
    using hs by (simp_all add: baseOptions_def)
  have same: "setAuthorization env ?base = ?base"
  proof (cases "splitWhiteSpace authorization")
    case Nil
    with base auth show ?thesis by (simp add: setAuthorization_def)
  next
    case (Cons scheme tokens)
    show ?thesis
    proof (cases tokens)
      case Nil
      with Cons base auth show ?thesis by (simp add: setAuthorization_def)
    next
      case (Cons user args)
      with \<open>splitWhiteSpace authorization = scheme # tokens\<close> len have "args = []"
        by simp
      with Cons \<open>splitWhiteSpace authorization = scheme # tokens\<close> base auth
      show ?thesis by (simp add: setAuthorization_def)
    qed
  qed
  let ?auth = "setProxy env settings httpRequest
      (setCertificate env httpRequest (setAuthorization env ?base))"
  from headers_addDefaultHeaders [of settings httpRequest ?auth]
  obtain added where added:
    "GotBodyOptions.headers (addDefaultHeaders settings httpRequest ?auth) = hs @ added"
    using same base by auto
  have "prepareOptions env settings httpRequest
      = Inr (setDecompress (addDefaultHeaders settings httpRequest ?auth))"
    using body by (simp add: prepareOptions_def)
  moreover have "getHeader (GotBodyOptions.headers
      (setDecompress (addDefaultHeaders settings httpRequest ?auth))) (js ''Authorization'')
      = Some authorization"
    using added auth by (simp add: getHeader_append_Some)
  moreover have "hooks (setDecompress (addDefaultHeaders settings httpRequest ?auth)) = None"
    using same base by simp
  moreover have "\<exists>added. GotBodyOptions.headers
      (setDecompress (addDefaultHeaders settings httpRequest ?auth)) = hs @ added"
    using added by simp
  ultimately show ?thesis by simp
qed

theorem short_authorization_unchanged_witness:
  "\<exists>options.
     prepareOptions exampleEnvironment exampleSettings
       (exampleRequest [(js ''Authorization'', js ''Basic dXNlcjpwYXNz'')]) = Inr options
     \<and> getHeader (GotBodyOptions.headers options) (js ''Authorization'')
         = Some (js ''Basic dXNlcjpwYXNz'')
     \<and> hooks options = None"
proof -
  let ?hs = "[(js ''Authorization'', js ''Basic dXNlcjpwYXNz'')]"
  have body: "prepareBody exampleEnvironment (HttpRequest.body (exampleRequest ?hs)) = Inr None"
    by (simp add: prepareBody_def exampleRequest_def)
  have hs: "HttpRequest.headers (exampleRequest ?hs) = Some ?hs"
    by (simp add: exampleRequest_def)
  have auth: "getHeader ?hs (js ''Authorization'') = Some (js ''Basic dXNlcjpwYXNz'')"
    by (simp add: getHeader_def)
  have "splitWhiteSpace (js ''Basic dXNlcjpwYXNz'') = [js ''Basic'', js ''dXNlcjpwYXNz'']"
    by code_simp
  then have len: "length (splitWhiteSpace (js ''Basic dXNlcjpwYXNz'')) \<le> 2"
    by simp
  from short_authorization_unchanged [OF body hs auth len, of exampleSettings]
  show ?thesis by blast
qed

section \<open>Properties of the proxy exclusion\<close>

text \<open>
  Claim C3, as amended. For every request URL and every exclusion list whose entries
  have at most one colon and do not end with a colon, \<open>ignoreProxy\<close> returns true
  exactly when some entry matches the host of the URL by the rule of the
  specification: without an explicit port in the URL only a bare host name entry equal
  to the host name up to letter case; with an explicit port such a bare entry, whatever
  the port, or an entry \<open>hostname:port\<close> with that host name and exactly that port.
  For every exclusion list the result depends on the set of its entries only, not on
  their order.
\<close>

theorem ignoreProxy_exclusion:
  "((\<forall>entry \<in> set excluded. wellFormedEntry entry) \<longrightarrow>
      ignoreProxy parse requestUrl (Some excluded)
        = (\<exists>entry \<in> set excluded.
             exclusionEntryMatches (hostname (parse requestUrl)) (port (parse requestUrl)) entry))
   \<and> (set excluded = set reordered \<longrightarrow>
        ignoreProxy parse requestUrl (Some excluded)
          = ignoreProxy parse requestUrl (Some reordered))"
  by (simp add: ignoreProxy_iff entry_wellFormed del: ignoreProxyLoop.simps)

theorem ignoreProxy_exclusion_witness:
  "ignoreProxy exampleUrlParse (js ''http://example.com:8080/'')
     (Some [js ''other.org:8080'', js ''Example.COM''])
   \<and> \<not> ignoreProxy exampleUrlParse (js ''https://example.com/api'')
       (Some [js ''example.com:443''])
   \<and> ignoreProxy exampleUrlParse (js ''http://example.com:8080/'')
       (Some [js ''other.org:8080'', js ''Example.COM''])
     = ignoreProxy exampleUrlParse (js ''http://example.com:8080/'')
       (Some [js ''Example.COM'', js ''other.org:8080''])"
proof -
  have wf: "\<forall>entry \<in> set [js ''other.org:8080'', js ''Example.COM'']. wellFormedEntry entry"
    "\<forall>entry \<in> set [js ''example.com:443'']. wellFormedEntry entry"
    by (simp_all add: wellFormedEntry_def js_def)
  have low: "toLowerCase (js ''Example.COM'') = js ''example.com''"
    "toLowerCase (js ''example.com'') = js ''example.com''"
    "toLowerCase (js ''example.com:443'') = js ''example.com:443''"
    by (simp_all add: toLowerCase_def lowerUnit_def js_def)
  have m1: "exclusionEntryMatches (Some (js ''example.com'')) (Some (js ''8080''))
      (js ''Example.COM'')"
    by (simp add: exclusionEntryMatches_def toLowerCase_def lowerUnit_def js_def)
  have m2: "\<not> exclusionEntryMatches (Some (js ''example.com'')) None (js ''example.com:443'')"
    by (simp add: exclusionEntryMatches_def toLowerCase_def lowerUnit_def js_def)
  have perm: "set [js ''other.org:8080'', js ''Example.COM'']
      = set [js ''Example.COM'', js ''other.org:8080'']"
    by auto
  note at_port = ignoreProxy_exclusion [of "[js ''other.org:8080'', js ''Example.COM'']"
      exampleUrlParse "js ''http://example.com:8080/''"
      "[js ''Example.COM'', js ''other.org:8080'']"]
  from at_port [THEN conjunct1, THEN mp, OF wf(1)] m1
  have a: "ignoreProxy exampleUrlParse (js ''http://example.com:8080/'')
       (Some [js ''other.org:8080'', js ''Example.COM''])"
    by (simp add: exampleUrlParse_port)
  from at_port [THEN conjunct2, THEN mp, OF perm]
  have c: "ignoreProxy exampleUrlParse (js ''http://example.com:8080/'')
       (Some [js ''other.org:8080'', js ''Example.COM''])
     = ignoreProxy exampleUrlParse (js ''http://example.com:8080/'')
       (Some [js ''Example.COM'', js ''other.org:8080''])" .
  from ignoreProxy_exclusion [of "[js ''example.com:443'']" exampleUrlParse
      "js ''https://example.com/api''" "[]"] wf(2) m2
  have b: "\<not> ignoreProxy exampleUrlParse (js ''https://example.com/api'')
       (Some [js ''example.com:443''])"
    by (simp add: exampleUrlParse_no_port)
  from a b c show ?thesis by blast
qed

text \<open>
  For all exclusion lists the claim fails: for the URL \<open>http://example.com:8080/\<close>
  and the single entry \<open>example.com:\<close>, which is neither a bare host name nor a
  host name with the port 8080, \<open>ignoreProxy\<close> returns true. The loop takes an empty
  port of an entry for a missing one.
\<close>

theorem ignoreProxy_exclusion_counterexample:
  "ignoreProxy exampleUrlParse (js ''http://example.com:8080/'') (Some [js ''example.com:''])
   \<noteq> (\<exists>entry \<in> set [js ''example.com:''].
        exclusionEntryMatches (hostname (exampleUrlParse (js ''http://example.com:8080/'')))
          (port (exampleUrlParse (js ''http://example.com:8080/''))) entry)"
proof -
  have parts: "splitUnit 0x3A (js ''example.com:'') = [js ''example.com'', []]"
    by (simp add: js_def)
  have low: "toLowerCase (js ''example.com:'') = js ''example.com:''"
    "toLowerCase (js ''example.com'') = js ''example.com''"
    by (simp_all add: toLowerCase_def lowerUnit_def js_def)
  have code: "ignoreProxy exampleUrlParse (js ''http://example.com:8080/'')
      (Some [js ''example.com:''])"
    by (simp add: ignoreProxy_def exampleUrlParse_port low parts Let_def)
  have "\<not> exclusionEntryMatches (Some (js ''example.com'')) (Some (js ''8080''))
      (js ''example.com:'')"
    by (simp add: exclusionEntryMatches_def toLowerCase_def lowerUnit_def js_def)
  with code show ?thesis
    by (simp add: exampleUrlParse_port)
qed

section \<open>Properties of sending\<close>

text \<open>
  Claim C8, as amended. For every completed exchange, \<open>headersSizeInBytes\<close> of the
  response is the sum of the lengths of the entries of the flat raw header list, names
  and values, plus half the number of these entries, which for a list of name and
  value pairs is the number of pairs; \<open>bodySizeInBytes\<close> is the sum of the lengths of
  the body chunks that were received. Neither is taken from the decoded body string.
\<close>

theorem response_sizes:
  assumes "prepareOptions env settings httpRequest = Inr options"
    and "got transport (encodeUrl transport (url httpRequest)) options = Inr response"
    and "rawHeaders response = Some raw"
    and "send env transport settings httpRequest = Inr materialized"
  shows "headersSizeInBytes materialized
           = of_nat (sum_list (map length raw)) + of_nat (length raw) / 2
     \<and> (raw = concat (map (\<lambda>(name, v). [name, v]) pairs) \<longrightarrow>
          headersSizeInBytes materialized
            = of_nat (sum_list (map (\<lambda>(name, v). length name + length v) pairs))
              + of_nat (length pairs))
     \<and> bodySizeInBytes materialized = sum_list (map length (dataChunks response))"
proof -
  from send_sizes [OF assms(1,2,4)] assms(3)
  have h: "headersSizeInBytes materialized
      = of_nat (sum_list (map length raw)) + of_nat (length raw) / 2"
    and b: "bodySizeInBytes materialized = sum_list (map length (dataChunks response))"
    by (simp_all add: onResponse_Some foldl_onData)
  have "headersSizeInBytes materialized
      = of_nat (sum_list (map (\<lambda>(name, v). length name + length v) pairs))
        + of_nat (length pairs)"
    if "raw = concat (map (\<lambda>(name, v). [name, v]) pairs)"
    using h that by (simp add: pairs_flat)
  with h b show ?thesis by blast
qed

theorem response_sizes_witness:
  "\<exists>materialized.
     send exampleEnvironment exampleTransport exampleSettings (exampleRequest [])
       = Inr materialized
     \<and> headersSizeInBytes materialized = 48
     \<and> bodySizeInBytes materialized = 2"
proof -
  from example_prepareOptions obtain options where
    prep: "prepareOptions exampleEnvironment exampleSettings (exampleRequest []) = Inr options"
    by blast
  from send_returns [OF prep example_got example_rawHeaders example_decodeBody]
  obtain materialized where
    sent: "send exampleEnvironment exampleTransport exampleSettings (exampleRequest [])
      = Inr materialized"
    by blast
  from response_sizes [OF prep example_got example_rawHeaders sent,
      of "[(js ''Content-Type'', js ''text/plain; charset=x-unknown''), (js ''X-Id'', js ''7'')]"]
  have "headersSizeInBytes materialized = 48" "bodySizeInBytes materialized = 2"
    by (simp_all add: exampleGotResponse_def js_def)
  with sent show ?thesis by blast
qed

text \<open>
  With half the number of pairs, as the claim has it, the count is wrong: for the two
  raw header pairs of the example response the lengths add up to 46 and
  \<open>headersSizeInBytes\<close> is 48, not 47.
\<close>

theorem response_sizes_counterexample:
  "\<exists>materialized.
     send exampleEnvironment exampleTransport exampleSettings (exampleRequest [])
       = Inr materialized
     \<and> rawHeaders exampleGotResponse
         = Some (concat (map (\<lambda>(name, v). [name, v])
             [(js ''Content-Type'', js ''text/plain; charset=x-unknown''),
              (js ''X-Id'', js ''7'')]))
     \<and> headersSizeInBytes materialized
         \<noteq> of_nat (sum_list (map (\<lambda>(name, v). length name + length v)
               [(js ''Content-Type'', js ''text/plain; charset=x-unknown''),
                (js ''X-Id'', js ''7'')]))
           + of_nat (length
               [(js ''Content-Type'', js ''text/plain; charset=x-unknown''),
                (js ''X-Id'', js ''7'')]) / 2"
proof -
  from example_prepareOptions obtain options where
    prep: "prepareOptions exampleEnvironment exampleSettings (exampleRequest []) = Inr options"
    by blast
  from send_returns [OF prep example_got example_rawHeaders example_decodeBody]
  obtain materialized where
    sent: "send exampleEnvironment exampleTransport exampleSettings (exampleRequest [])
      = Inr materialized"
    and size: "headersSizeInBytes materialized
      = onResponse (Some (concat (map (\<lambda>(name, v). [name, v])
         [(js ''Content-Type'', js ''text/plain; charset=x-unknown''), (js ''X-Id'', js ''7'')]))) 0"
    by blast
  have "headersSizeInBytes materialized = 48"
    unfolding size by (simp add: onResponse_def js_def)
  moreover have "of_nat (sum_list (map (\<lambda>(name, v). length name + length v)
               [(js ''Content-Type'', js ''text/plain; charset=x-unknown''),
                (js ''X-Id'', js ''7'')]))
           + of_nat (length
               [(js ''Content-Type'', js ''text/plain; charset=x-unknown''),
                (js ''X-Id'', js ''7'')]) / 2 = (47 :: rat)"
    by (simp add: js_def)
  ultimately show ?thesis
    using sent example_rawHeaders by auto
qed

text \<open>
  Claim C4. Decoding the body does not throw, for every body buffer and every charset
  name taken from the content type (\<open>utf8\<close> when there is none), as long as the
  decoder can decode the buffer as \<open>utf8\<close>: when the options were prepared, the
  transport has answered and the raw headers are there, \<open>send\<close> returns a response.
  Its body is the buffer decoded with the detected charset, or, when that decoding
  fails, the buffer decoded as \<open>utf8\<close>, in both cases with the escaped Unicode
  characters replaced when that option is on. The error of the first decoding is not
  passed on.
\<close>

theorem body_decoding_never_throws:
  assumes "prepareOptions env settings httpRequest = Inr options"
    and "got transport (encodeUrl transport (url httpRequest)) options = Inr response"
    and "rawHeaders response = Some raw"
    and "iconv_decode transport (GotResponse.body response) (js ''utf8'') = Inr fallback"
  shows "\<exists>materialized. send env transport settings httpRequest = Inr materialized
     \<and> HttpResponse.body materialized =
         Some ((if RestClientSettings.decodeEscapedUnicodeCharacters settings
                then decodeEscapedUnicodeCharacters else (\<lambda>str. str))
           (case iconv_decode transport (GotResponse.body response)
                   (detectEncoding (mimeCharset transport)
                      (obj_get (GotResponse.headers response) (js ''content-type''))) of
              Inr decoded \<Rightarrow> decoded
            | Inl error \<Rightarrow> fallback))"
proof -
  let ?encoding = "detectEncoding (mimeCharset transport)
      (obj_get (GotResponse.headers response) (js ''content-type''))"
  let ?str = "case iconv_decode transport (GotResponse.body response) ?encoding of
      Inr decoded \<Rightarrow> decoded | Inl error \<Rightarrow> fallback"
  have "decodeBody (iconv_decode transport) (GotResponse.body response) ?encoding
      = Inr (Some ?str)"
    using assms(4) by (auto simp: decodeBody_def split: sum.splits)
  from send_returns [OF assms(1,2,3) this] show ?thesis
    by auto
qed

theorem body_decoding_never_throws_witness:
  "\<exists>materialized.
     send exampleEnvironment exampleTransport exampleSettings (exampleRequest [])
       = Inr materialized
     \<and> HttpResponse.body materialized = Some (js ''hi'')"
proof -
  from example_prepareOptions obtain options where
    prep: "prepareOptions exampleEnvironment exampleSettings (exampleRequest []) = Inr options"
    by blast
  have plain: "\<not> RestClientSettings.decodeEscapedUnicodeCharacters exampleSettings"
    by (simp add: exampleSettings_def)
  from body_decoding_never_throws [OF prep example_got example_rawHeaders example_utf8]
  show ?thesis
    by (simp add: plain example_unknown)
qed

text \<open>
  Claim C7, failing input. In the body \<open>C:\users\bob\<close> the six code units of
  \<open>\users\<close> are taken for an escape sequence, because the class of the regular
  expression admits every word character and not only hexadecimal digits;
  \<open>parseInt\<close> of \<open>sers\<close> is \<open>NaN\<close> and the six code units are replaced by the code
  unit 0.
\<close>

theorem escaped_unicode_windows_path:
  "decodeEscapedUnicodeCharacters (js ''C:'' @ 0x5C # js ''users'' @ 0x5C # js ''bob'')
     = js ''C:'' @ 0 # 0x5C # js ''bob''"
  by (simp add: js_def isWordUnit_def parseInt16_def fromCharCode_def hexDigit_def
        startsWith_def)

end
